theory Spec2Isabelle
  imports Main
begin

section \<open>Values of the Python program\<close>

text \<open>
  A Python \<open>str\<close> is modelled as a \<open>string\<close>, one \<open>char\<close> per code point, so the
  model covers the strings whose code points are below 256. The value that
  \<open>response.json()\<close> returns is a \<open>json\<close>: a dict is an association list read by key
  (a parsed dict has each key once), a float is carried as the text that \<open>repr\<close> prints
  for it, since nothing in the program computes with numbers.
\<close>

datatype json =
    JNull
  | JBool bool
  | JInt int
  | JFloat string
  | JStr string
  | JArr "json list"
  | JObj "(string \<times> json) list"

text \<open>The exceptions that the modelled operations raise.\<close>

datatype exn =
    RequestException
  | JSONDecodeError
  | TypeError
  | KeyError
  | IndexError
  | AttributeError
  | CompletionError

text \<open>Sequencing of statements that may raise: the first exception ends the block.\<close>

definition bind_exn :: "exn + 'a \<Rightarrow> ('a \<Rightarrow> exn + 'b) \<Rightarrow> exn + 'b" where
  "bind_exn m f = (case m of Inl e \<Rightarrow> Inl e | Inr v \<Rightarrow> f v)"

subsection \<open>The built-in operations that the lookup applies to the payload\<close>

text \<open>\<open>needle in s\<close> on two strings: \<open>needle\<close> occurs in \<open>s\<close> as a contiguous run.\<close>

fun starts_with :: "string \<Rightarrow> string \<Rightarrow> bool" where
  "starts_with [] s = True"
| "starts_with (c # cs) [] = False"
| "starts_with (c # cs) (d # ds) = (c = d \<and> starts_with cs ds)"

fun str_contains :: "string \<Rightarrow> string \<Rightarrow> bool" where
  "str_contains needle [] = (needle = [])"
| "str_contains needle (d # ds) = (starts_with needle (d # ds) \<or> str_contains needle ds)"

text \<open>
  \<open>key in data\<close> for a string \<open>key\<close>: key membership on a dict, element equality on a
  list, substring on a string, and \<open>TypeError\<close> on \<open>None\<close>, a bool or a number, which are
  not iterable.
\<close>

fun py_in :: "string \<Rightarrow> json \<Rightarrow> exn + bool" where
  "py_in k (JObj kvs) = Inr (map_of kvs k \<noteq> None)"
| "py_in k (JArr xs) = Inr (JStr k \<in> set xs)"
| "py_in k (JStr s) = Inr (str_contains k s)"
| "py_in k _ = Inl TypeError"

text \<open>
  \<open>data[key]\<close> for a string \<open>key\<close>: the value on a dict, \<open>KeyError\<close> when the key is
  missing, \<open>TypeError\<close> on everything else (a list and a string take integer indices, the
  rest is not subscriptable).
\<close>

fun py_getitem_key :: "json \<Rightarrow> string \<Rightarrow> exn + json" where
  "py_getitem_key (JObj kvs) k = (case map_of kvs k of None \<Rightarrow> Inl KeyError | Some v \<Rightarrow> Inr v)"
| "py_getitem_key _ k = Inl TypeError"

text \<open>
  \<open>v[0]\<close>: the first element of a list, the first character of a string (a string of
  length one), \<open>IndexError\<close> when either is empty, \<open>KeyError\<close> on a dict (its keys are
  strings), \<open>TypeError\<close> on \<open>None\<close>, a bool or a number.
\<close>

fun py_getitem0 :: "json \<Rightarrow> exn + json" where
  "py_getitem0 (JArr []) = Inl IndexError"
| "py_getitem0 (JArr (x # xs)) = Inr x"
| "py_getitem0 (JStr []) = Inl IndexError"
| "py_getitem0 (JStr (c # cs)) = Inr (JStr [c])"
| "py_getitem0 (JObj kvs) = Inl KeyError"
| "py_getitem0 _ = Inl TypeError"

text \<open>
  \<open>result.get(key, default)\<close>: only a dict has the method; on any other value the
  attribute lookup raises \<open>AttributeError\<close>.
\<close>

fun py_get :: "json \<Rightarrow> string \<Rightarrow> json \<Rightarrow> exn + json" where
  "py_get (JObj kvs) k dflt = Inr (case map_of kvs k of None \<Rightarrow> dflt | Some v \<Rightarrow> v)"
| "py_get _ k dflt = Inl AttributeError"

text \<open>
  \<open>v[:n]\<close>: the first \<open>n\<close> characters of a string or elements of a list. A dict does not
  take a slice (\<open>TypeError\<close> up to Python 3.11, \<open>KeyError\<close> from 3.12; the model says
  \<open>TypeError\<close>), the other values are not subscriptable.
\<close>

fun py_slice_to :: "json \<Rightarrow> nat \<Rightarrow> exn + json" where
  "py_slice_to (JStr s) n = Inr (JStr (take n s))"
| "py_slice_to (JArr xs) n = Inr (JArr (take n xs))"
| "py_slice_to _ n = Inl TypeError"

text \<open>\<open>len(v)\<close> of a returned field, where it has one.\<close>

fun py_len :: "json \<Rightarrow> nat option" where
  "py_len (JStr s) = Some (length s)"
| "py_len (JArr xs) = Some (length xs)"
| "py_len (JObj kvs) = Some (length kvs)"
| "py_len _ = None"

section \<open>The outside world\<close>

text \<open>
  What \<open>requests.get(url)\<close> followed by \<open>response.json()\<close> gives for a URL: the request
  raises, or it returns a response whose body does not parse, or the body parses.
\<close>

datatype http_outcome =
    RequestRaises
  | JsonRaises
  | Json json

text \<open>
  The environment of one request: the drug-label service, and the completion service.
  Building \<open>ChatGroq\<close> with a key raises or gives a client; invoking the chain on the
  system and the user message raises or gives the content of the response.
\<close>

record env =
  http_get :: "string \<Rightarrow> http_outcome"
  chat_groq :: "string \<Rightarrow> exn + (string \<Rightarrow> string \<Rightarrow> exn + string)"

section \<open>Function 1: the lookup in the drug-label database\<close>

text \<open>The dict that \<open>get_fda_drug_info\<close> returns, with its four fixed keys.\<close>

record drug_record =
  source :: string
  purpose :: json
  indications :: json
  warnings :: json

definition base_url :: string where
  "base_url = ''https://api.fda.gov/drug/label.json''"

definition query :: "string \<Rightarrow> string" where
  \<open>query drug_name = ''?search=openfda.brand_name:"'' @ drug_name @ ''"&limit=1''\<close>

definition not_listed :: json where
  "not_listed = JArr [JStr ''Not Listed'']"

text \<open>The two statements that fetch and parse.\<close>

definition fetch_json :: "env \<Rightarrow> string \<Rightarrow> exn + json" where
  "fetch_json w url =
     (case http_get w url of
        RequestRaises \<Rightarrow> Inl RequestException
      | JsonRaises \<Rightarrow> Inl JSONDecodeError
      | Json data \<Rightarrow> Inr data)"

text \<open>The dict literal of the \<open>return\<close>, its values evaluated in the order written.\<close>

definition build_record :: "json \<Rightarrow> exn + drug_record" where
  "build_record result =
     bind_exn (bind_exn (py_get result ''purpose'' not_listed) py_getitem0) (\<lambda>p.
     bind_exn (bind_exn (py_get result ''indications_and_usage'' not_listed) py_getitem0) (\<lambda>i.
     bind_exn (bind_exn (bind_exn (py_get result ''warnings'' not_listed) py_getitem0)
                 (\<lambda>v. py_slice_to v 1000)) (\<lambda>ws.
     Inr \<lparr>source = ''Official US FDA Database'', purpose = p, indications = i,
          warnings = ws\<rparr>)))"

text \<open>The body of the \<open>try\<close> block.\<close>

definition get_fda_drug_info_try :: "env \<Rightarrow> string \<Rightarrow> exn + drug_record option" where
  "get_fda_drug_info_try w drug_name =
     bind_exn (fetch_json w (base_url @ query drug_name)) (\<lambda>data.
     bind_exn (py_in ''error'' data) (\<lambda>has_error.
       if has_error then Inr None
       else
         bind_exn (bind_exn (py_getitem_key data ''results'') py_getitem0) (\<lambda>result.
         bind_exn (build_record result) (\<lambda>r. Inr (Some r)))))"

text \<open>
  The function: the \<open>try\<close> block under a bare \<open>except\<close>, which turns every exception
  into the return value \<open>None\<close>. The result keeps the type of a computation that may
  raise, so that "never raises" is a statement about it.
\<close>

definition get_fda_drug_info :: "env \<Rightarrow> string \<Rightarrow> exn + drug_record option" where
  "get_fda_drug_info w drug_name =
     (case get_fda_drug_info_try w drug_name of
        Inl e \<Rightarrow> Inr None
      | Inr r \<Rightarrow> Inr r)"

section \<open>The text that \<open>str\<close> prints\<close>

text \<open>
  \<open>str\<close> of a dict is its \<open>repr\<close>, which prints the \<open>repr\<close> of every key and value.
  \<open>repr\<close> of a string encloses it in single quotes, or in double quotes when the
  string has a single quote and no double quote; it escapes the backslash and the
  enclosing quote, writes tab, newline and carriage return as \<open>\t\<close>, \<open>\n\<close>, \<open>\r\<close>, and
  every other character that is not printable as \<open>\xNN\<close>.
\<close>

definition hex_digit :: "nat \<Rightarrow> char" where
  "hex_digit n = (if n < 10 then char_of (48 + n) else char_of (87 + n))"

definition hex_escape :: "char \<Rightarrow> string" where
  "hex_escape c =
     [CHR 0x5C, CHR ''x'', hex_digit ((of_char c :: nat) div 16), hex_digit ((of_char c :: nat) mod 16)]"

text \<open>
  Printable, for a code point from 128 to 255: all but the C1 controls, the no-break
  space and the soft hyphen.
\<close>

definition printable_high :: "char \<Rightarrow> bool" where
  "printable_high c = ((of_char c :: nat) > 160 \<and> (of_char c :: nat) \<noteq> 173)"

definition repr_char :: "char \<Rightarrow> char \<Rightarrow> string" where
  "repr_char quote c =
     (if c = quote \<or> c = CHR 0x5C then [CHR 0x5C, c]
      else if c = CHR 0x09 then [CHR 0x5C, CHR ''t'']
      else if c = CHR 0x0A then [CHR 0x5C, CHR ''n'']
      else if c = CHR 0x0D then [CHR 0x5C, CHR ''r'']
      else if (of_char c :: nat) < 32 \<or> (of_char c :: nat) = 127 then hex_escape c
      else if (of_char c :: nat) < 127 then [c]
      else if printable_high c then [c]
      else hex_escape c)"

definition repr_quote :: "string \<Rightarrow> char" where
  "repr_quote s = (if CHR 0x27 \<in> set s \<and> CHR 0x22 \<notin> set s then CHR 0x22 else CHR 0x27)"

definition repr_str :: "string \<Rightarrow> string" where
  "repr_str s = [repr_quote s] @ concat (map (repr_char (repr_quote s)) s) @ [repr_quote s]"

text \<open>An integer in decimal.\<close>

fun nat_str :: "nat \<Rightarrow> string" where
  "nat_str n =
     (if n < 10 then [char_of (48 + n)] else nat_str (n div 10) @ [char_of (48 + n mod 10)])"

declare nat_str.simps [simp del]

definition int_str :: "int \<Rightarrow> string" where
  "int_str i = (if i < 0 then CHR ''-'' # nat_str (nat (- i)) else nat_str (nat i))"

text \<open>The items of a list or dict display, separated by a comma and a space.\<close>

fun join_comma :: "string list \<Rightarrow> string" where
  "join_comma [] = []"
| "join_comma [x] = x"
| "join_comma (x # y # ys) = x @ '', '' @ join_comma (y # ys)"

fun py_repr :: "json \<Rightarrow> string" where
  "py_repr JNull = ''None''"
| "py_repr (JBool b) = (if b then ''True'' else ''False'')"
| "py_repr (JInt i) = int_str i"
| "py_repr (JFloat s) = s"
| "py_repr (JStr s) = repr_str s"
| "py_repr (JArr xs) = ''['' @ join_comma (map py_repr xs) @ '']''"
| "py_repr (JObj kvs) =
     ''{'' @ join_comma (map (\<lambda>kv. repr_str (fst kv) @ '': '' @ py_repr (snd kv)) kvs) @ ''}''"

text \<open>The dict that a \<open>drug_record\<close> stands for, its keys in the order of the literal.\<close>

definition record_dict :: "drug_record \<Rightarrow> json" where
  "record_dict r =
     JObj [(''source'', JStr (source r)), (''purpose'', purpose r),
           (''indications'', indications r), (''warnings'', warnings r)]"

text \<open>\<open>str(context_data)\<close>, where \<open>context_data\<close> is \<open>None\<close> or a returned dict.\<close>

definition py_str :: "drug_record option \<Rightarrow> string" where
  "py_str context_data =
     (case context_data of None \<Rightarrow> ''None'' | Some r \<Rightarrow> py_repr (record_dict r))"

section \<open>Function 2: the completion\<close>

text \<open>
  What a request does, in order: the GET to the drug-label service, the entry into
  \<open>get_ai_response\<close> with its three arguments, the construction of the completion
  client, the invocation of the chain with the two messages, and the Streamlit
  outputs (for \<open>st.success\<close>, \<open>st.info\<close> and the link labels the fixed text is left out;
  the spinner and the expander only wrap other outputs and are not recorded).
\<close>

datatype event =
    HttpGet string
  | Call_get_ai_response string "drug_record option" string
  | NewChatGroq string
  | ChainInvoke string string
  | StSuccess
  | StInfo
  | StWrite string
  | StJson drug_record
  | StMarkdownLink string string

text \<open>
  The API key of the sidebar: the secret when the secrets have one, else the text
  input, which is the empty string when nothing was typed.
\<close>

definition api_key_of :: "(string \<rightharpoonup> string) \<Rightarrow> string \<Rightarrow> string" where
  "api_key_of secrets text_input =
     (case secrets ''GROQ_API_KEY'' of Some k \<Rightarrow> k | None \<Rightarrow> text_input)"

definition enter_key_message :: string where
  "enter_key_message = ''Please enter your API Key in the sidebar first!''"

definition with_context_system_text :: string where
  "with_context_system_text =
     ''You are a helpful pharmacist. Explain this technical medical data in simple English for a patient.''"

definition no_context_system_text :: string where
  \<open>no_context_system_text =
     ''\<newline>        You are an expert pharmacist familiar with international medicines, including Indian brands (like Dolo, Saridon, Pan D).\<newline>        1. Identify the active ingredients in the drug name provided.\<newline>        2. Explain its uses and side effects.\<newline>        3. Provide a warning: "Information based on general knowledge, check the strip pack."\<newline>        ''\<close>

definition symptom_system_text :: string where
  \<open>symptom_system_text =
     ''\<newline>        You are a senior medical triage nurse.\<newline>        1. Ask follow-up questions if the user's description is too vague.\<newline>        2. Identify if this is an emergency (Heart attack, Stroke, Anaphylaxis).\<newline>        3. Suggest specialist doctors (e.g., 'See a Gastroenterologist').\<newline>        4. Suggest supportive home care (hydration, rest).\<newline>        5. DISCLAIMER: Always state you are an AI, not a doctor.\<newline>        ''\<close>

text \<open>
  The branching on \<open>mode\<close>: the pair of \<open>system_text\<close> and \<open>input_text\<close> that the
  \<open>if\<close>/\<open>elif\<close>/\<open>else\<close> assigns.
\<close>

definition logic_branching :: "string \<Rightarrow> drug_record option \<Rightarrow> string \<Rightarrow> string \<times> string" where
  "logic_branching user_query context_data mode =
     (if mode = ''drug_with_context'' then
        (with_context_system_text,
         ''Official Data: '' @ py_str context_data @ ''\<newline>\<newline>User Question: '' @ user_query)
      else if mode = ''drug_no_context'' then
        (no_context_system_text, ''Explain the medicine: '' @ user_query)
      else
        (symptom_system_text, user_query))"

text \<open>
  The function, with the global \<open>api_key\<close> as a parameter. It returns the value or the
  exception, and the events in the order they happen. Building the client may raise;
  if it does not, the chain is invoked once and its content is returned as it is.
\<close>

definition get_ai_response ::
  "env \<Rightarrow> string \<Rightarrow> string \<Rightarrow> drug_record option \<Rightarrow> string \<Rightarrow>
   (exn + string) \<times> event list" where
  "get_ai_response w api_key user_query context_data mode =
     (if api_key = [] then
        (Inr enter_key_message, [Call_get_ai_response user_query context_data mode])
      else
        (case chat_groq w api_key of
           Inl e \<Rightarrow>
             (Inl e, [Call_get_ai_response user_query context_data mode, NewChatGroq api_key])
         | Inr llm \<Rightarrow>
             (case logic_branching user_query context_data mode of
                (system_text, input_text) \<Rightarrow>
                  (llm system_text input_text,
                   [Call_get_ai_response user_query context_data mode, NewChatGroq api_key,
                    ChainInvoke system_text input_text]))))"

section \<open>The pages\<close>

text \<open>
  The medicine page once its button is pressed. An empty name does nothing. Otherwise
  the lookup runs first, and its result selects the one call of \<open>get_ai_response\<close>;
  an exception of that call leaves the page before the explanation is written.
\<close>

definition tab2 :: "env \<Rightarrow> string \<Rightarrow> string \<Rightarrow> (exn + unit) \<times> event list" where
  "tab2 w api_key drug_name =
     (if drug_name = [] then (Inr (), [])
      else
        (case get_fda_drug_info w drug_name of
           Inl e \<Rightarrow> (Inl e, [HttpGet (base_url @ query drug_name)])
         | Inr (Some real_data) \<Rightarrow>
             (case get_ai_response w api_key (''Explain '' @ drug_name) (Some real_data)
                     ''drug_with_context'' of
                (Inl e, evs) \<Rightarrow>
                  (Inl e, [HttpGet (base_url @ query drug_name), StSuccess] @ evs)
              | (Inr explanation, evs) \<Rightarrow>
                  (Inr (), [HttpGet (base_url @ query drug_name), StSuccess] @ evs
                           @ [StWrite explanation, StJson real_data]))
         | Inr None \<Rightarrow>
             (case get_ai_response w api_key drug_name None ''drug_no_context'' of
                (Inl e, evs) \<Rightarrow>
                  (Inl e, [HttpGet (base_url @ query drug_name), StInfo] @ evs)
              | (Inr explanation, evs) \<Rightarrow>
                  (Inr (), [HttpGet (base_url @ query drug_name), StInfo] @ evs
                           @ [StWrite explanation]))))"

text \<open>The emergency page: nothing for an empty city, else the two links.\<close>

definition hospital_link :: "string \<Rightarrow> string" where
  "hospital_link user_city = ''https://www.google.com/maps/search/hospitals+near+'' @ user_city"

definition ambulance_link :: "string \<Rightarrow> string" where
  "ambulance_link user_city =
     ''https://www.google.com/maps/search/ambulance+service+near+'' @ user_city"

definition tab3 :: "string \<Rightarrow> event list" where
  "tab3 user_city =
     (if user_city = [] then []
      else [StMarkdownLink user_city (hospital_link user_city),
            StMarkdownLink user_city (ambulance_link user_city)])"

text \<open>The events that reach the network or build the client, and the recorded calls.\<close>

fun is_network :: "event \<Rightarrow> bool" where
  "is_network (HttpGet url) = True"
| "is_network (NewChatGroq k) = True"
| "is_network (ChainInvoke s i) = True"
| "is_network _ = False"

fun is_ai_call :: "event \<Rightarrow> bool" where
  "is_ai_call (Call_get_ai_response q c m) = True"
| "is_ai_call _ = False"

section \<open>Sample environments\<close>

text \<open>
  A drug-label service that knows the drug: one result entry with two purposes, no
  indications and a warning of 1500 characters. A service that answers with its error
  payload. A service whose one result entry is given. A completion service that
  builds with every key and answers with the user message.
\<close>

definition advil_payload :: json where
  "advil_payload =
     JObj [(''meta'', JObj [(''results'', JObj [(''total'', JInt 1)])]),
           (''results'',
            JArr [JObj [(''purpose'', JArr [JStr ''pain reliever'', JStr ''fever reducer'']),
                        (''warnings'', JArr [JStr (replicate 1500 CHR ''w'')])]])]"

definition advil_record :: drug_record where
  "advil_record =
     \<lparr>source = ''Official US FDA Database'', purpose = JStr ''pain reliever'',
      indications = JStr ''Not Listed'', warnings = JStr (replicate 1000 CHR ''w'')\<rparr>"

definition echo_chat :: "string \<Rightarrow> exn + (string \<Rightarrow> string \<Rightarrow> exn + string)" where
  "echo_chat k = Inr (\<lambda>system_text input_text. Inr input_text)"

definition w_advil :: env where
  "w_advil = \<lparr>http_get = (\<lambda>url. Json advil_payload), chat_groq = echo_chat\<rparr>"

definition w_unknown :: env where
  "w_unknown =
     \<lparr>http_get = (\<lambda>url. Json (JObj [(''error'', JObj [(''code'', JStr ''NOT_FOUND'')])])),
      chat_groq = echo_chat\<rparr>"

definition w_entry :: "(string \<times> json) list \<Rightarrow> env" where
  "w_entry entry =
     \<lparr>http_get = (\<lambda>url. Json (JObj [(''results'', JArr [JObj entry])])),
      chat_groq = echo_chat\<rparr>"

definition w_down :: "http_outcome \<Rightarrow> env" where
  "w_down outcome = \<lparr>http_get = (\<lambda>url. outcome), chat_groq = echo_chat\<rparr>"

section \<open>Properties of the lookup\<close>

subsection \<open>When the operations return\<close>

lemma starts_with_iff: "starts_with n s \<longleftrightarrow> (\<exists>suf. s = n @ suf)"
  by (induction n s rule: starts_with.induct) auto

lemma str_contains_iff: "str_contains n s \<longleftrightarrow> (\<exists>pre suf. s = pre @ n @ suf)"
proof (induction s)
  case Nil
  then show ?case by auto
next
  case (Cons d ds)
  show ?case
  proof
    assume "str_contains n (d # ds)"
    then consider "starts_with n (d # ds)" | "str_contains n ds" by auto
    then show "\<exists>pre suf. d # ds = pre @ n @ suf"
    proof cases
      case 1
      then obtain suf where "d # ds = n @ suf" unfolding starts_with_iff by blast
      then have "d # ds = [] @ n @ suf" by simp
      then show ?thesis by blast
    next
      case 2
      then obtain pre suf where "ds = pre @ n @ suf" using Cons.IH by blast
      then have "d # ds = (d # pre) @ n @ suf" by simp
      then show ?thesis by blast
    qed
  next
    assume "\<exists>pre suf. d # ds = pre @ n @ suf"
    then obtain pre suf where e: "d # ds = pre @ n @ suf" by blast
    show "str_contains n (d # ds)"
    proof (cases pre)
      case Nil
      with e have "starts_with n (d # ds)" unfolding starts_with_iff by auto
      then show ?thesis by simp
    next
      case (Cons a pre')
      with e have "ds = pre' @ n @ suf" by simp
      then have "str_contains n ds" using Cons.IH by blast
      then show ?thesis by simp
    qed
  qed
qed

lemma bind_exn_Inl [simp]: "bind_exn (Inl e) f = Inl e"
  by (simp add: bind_exn_def)

lemma bind_exn_Inr [simp]: "bind_exn (Inr v) f = f v"
  by (simp add: bind_exn_def)

lemma bind_exn_eq_Inr:
  "bind_exn m f = Inr y \<longleftrightarrow> (\<exists>v. m = Inr v \<and> f v = Inr y)"
  by (cases m) simp_all

lemma get_fda_drug_info_total: "\<exists>r. get_fda_drug_info w d = Inr r"
  by (simp add: get_fda_drug_info_def split: sum.split)

lemma get_fda_drug_info_Some:
  "get_fda_drug_info w d = Inr (Some r) \<longleftrightarrow> get_fda_drug_info_try w d = Inr (Some r)"
  by (simp add: get_fda_drug_info_def split: sum.split)

lemma get_fda_drug_info_try_raises:
  "get_fda_drug_info_try w d = Inl e \<Longrightarrow> get_fda_drug_info w d = Inr None"
  by (simp add: get_fda_drug_info_def)

lemma py_getitem0_Inr:
  "py_getitem0 v = Inr x \<longleftrightarrow>
     (\<exists>xs. v = JArr (x # xs)) \<or> (\<exists>c cs. v = JStr (c # cs) \<and> x = JStr [c])"
  by (cases v rule: py_getitem0.cases) auto

lemma py_get_Inr:
  "py_get v k dflt = Inr x \<longleftrightarrow>
     (\<exists>entry. v = JObj entry \<and> x = (case map_of entry k of None \<Rightarrow> dflt | Some y \<Rightarrow> y))"
  by (cases v) auto

lemma py_slice_to_len:
  "py_slice_to v n = Inr x \<Longrightarrow> \<exists>m. py_len x = Some m \<and> m \<le> n"
  by (cases v) auto

lemma py_getitem_key_Inr:
  "py_getitem_key data k = Inr v \<longleftrightarrow> (\<exists>kvs. data = JObj kvs \<and> map_of kvs k = Some v)"
  by (cases data) (auto split: option.splits)

lemma build_record_Inr:
  assumes "build_record result = Inr r"
  shows "\<exists>entry p i v ws. result = JObj entry
     \<and> py_getitem0 (case map_of entry ''purpose'' of None \<Rightarrow> not_listed | Some y \<Rightarrow> y) = Inr p
     \<and> py_getitem0 (case map_of entry ''indications_and_usage'' of None \<Rightarrow> not_listed | Some y \<Rightarrow> y) = Inr i
     \<and> py_getitem0 (case map_of entry ''warnings'' of None \<Rightarrow> not_listed | Some y \<Rightarrow> y) = Inr v
     \<and> py_slice_to v 1000 = Inr ws
     \<and> r = \<lparr>source = ''Official US FDA Database'', purpose = p, indications = i, warnings = ws\<rparr>"
proof -
  from assms obtain p i ws where
    p: "bind_exn (py_get result ''purpose'' not_listed) py_getitem0 = Inr p" and
    i: "bind_exn (py_get result ''indications_and_usage'' not_listed) py_getitem0 = Inr i" and
    w: "bind_exn (bind_exn (py_get result ''warnings'' not_listed) py_getitem0)
          (\<lambda>v. py_slice_to v 1000) = Inr ws" and
    r: "r = \<lparr>source = ''Official US FDA Database'', purpose = p, indications = i,
              warnings = ws\<rparr>"
    unfolding build_record_def bind_exn_eq_Inr by fastforce
  from p obtain entry where f: "result = JObj entry"
    unfolding bind_exn_eq_Inr py_get_Inr by blast
  from w obtain v where v: "bind_exn (py_get result ''warnings'' not_listed) py_getitem0 = Inr v"
    and s: "py_slice_to v 1000 = Inr ws"
    unfolding bind_exn_eq_Inr [of _ "\<lambda>v. py_slice_to v 1000"] by blast
  from p f have p': "py_getitem0 (case map_of entry ''purpose'' of None \<Rightarrow> not_listed | Some y \<Rightarrow> y) = Inr p"
    by simp
  from i f have i': "py_getitem0 (case map_of entry ''indications_and_usage'' of None \<Rightarrow> not_listed | Some y \<Rightarrow> y) = Inr i"
    by simp
  from v f have v': "py_getitem0 (case map_of entry ''warnings'' of None \<Rightarrow> not_listed | Some y \<Rightarrow> y) = Inr v"
    by simp
  show ?thesis
    by (intro exI [of _ entry] exI [of _ p] exI [of _ i] exI [of _ v] exI [of _ ws]
          conjI f p' i' v' s r)
qed

lemma get_fda_drug_info_try_Some:
  assumes "get_fda_drug_info_try w d = Inr (Some r)"
  shows "\<exists>kvs v result. http_get w (base_url @ query d) = Json (JObj kvs)
      \<and> map_of kvs ''error'' = None
      \<and> map_of kvs ''results'' = Some v \<and> py_getitem0 v = Inr result
      \<and> build_record result = Inr r"
proof -
  from assms obtain data has_error where
    f: "fetch_json w (base_url @ query d) = Inr data" and
    i: "py_in ''error'' data = Inr has_error" and
    rest: "(if has_error then Inr None
       else bind_exn (bind_exn (py_getitem_key data ''results'') py_getitem0) (\<lambda>result.
         bind_exn (build_record result) (\<lambda>r. Inr (Some r)))) = Inr (Some r)"
    unfolding get_fda_drug_info_try_def bind_exn_eq_Inr by blast
  from rest have ne: "\<not> has_error" by (auto split: if_splits)
  with rest have "bind_exn (bind_exn (py_getitem_key data ''results'') py_getitem0) (\<lambda>result.
         bind_exn (build_record result) (\<lambda>r. Inr (Some r))) = Inr (Some r)"
    by simp
  then obtain v result where
    k: "py_getitem_key data ''results'' = Inr v" and g: "py_getitem0 v = Inr result"
    and b: "build_record result = Inr r"
    unfolding bind_exn_eq_Inr by auto
  from k obtain kvs where d: "data = JObj kvs" and m: "map_of kvs ''results'' = Some v"
    unfolding py_getitem_key_Inr by blast
  from f d have h: "http_get w (base_url @ query d) = Json (JObj kvs)"
    by (auto simp: fetch_json_def split: http_outcome.splits)
  from i d ne have e: "map_of kvs ''error'' = None" by simp
  show ?thesis
    by (intro exI [of _ kvs] exI [of _ v] exI [of _ result] conjI h e m g b)
qed

subsection \<open>The sample lookups\<close>

lemma get_fda_drug_info_advil: "get_fda_drug_info w_advil ''Advil'' = Inr (Some advil_record)"
  by (simp add: get_fda_drug_info_def get_fda_drug_info_try_def fetch_json_def w_advil_def
        advil_payload_def build_record_def not_listed_def advil_record_def)

lemma get_fda_drug_info_unknown: "get_fda_drug_info w_unknown ''Dolo 650'' = Inr None"
  by (simp add: get_fda_drug_info_def get_fda_drug_info_try_def fetch_json_def w_unknown_def)

subsection \<open>Failures of the lookup\<close>

text \<open>
  C2: for every drug name the lookup returns and never raises, and it returns \<open>None\<close>
  when the request raises, when the body does not parse, when the payload has the
  \<open>error\<close> indicator, and when the result list is empty.
\<close>

theorem get_fda_drug_info_never_raises:
  "(\<exists>r. get_fda_drug_info w d = Inr r)
   \<and> (http_get w (base_url @ query d) = RequestRaises \<longrightarrow> get_fda_drug_info w d = Inr None)
   \<and> (http_get w (base_url @ query d) = JsonRaises \<longrightarrow> get_fda_drug_info w d = Inr None)
   \<and> (http_get w (base_url @ query d) = Json data \<and> py_in ''error'' data = Inr True
        \<longrightarrow> get_fda_drug_info w d = Inr None)
   \<and> (http_get w (base_url @ query d) = Json data
        \<and> py_getitem_key data ''results'' = Inr (JArr [])
        \<longrightarrow> get_fda_drug_info w d = Inr None)"
proof (intro conjI impI)
  show "\<exists>r. get_fda_drug_info w d = Inr r"
    by (rule get_fda_drug_info_total)
next
  assume "http_get w (base_url @ query d) = RequestRaises"
  then show "get_fda_drug_info w d = Inr None"
    by (simp add: get_fda_drug_info_def get_fda_drug_info_try_def fetch_json_def)
next
  assume "http_get w (base_url @ query d) = JsonRaises"
  then show "get_fda_drug_info w d = Inr None"
    by (simp add: get_fda_drug_info_def get_fda_drug_info_try_def fetch_json_def)
next
  assume "http_get w (base_url @ query d) = Json data \<and> py_in ''error'' data = Inr True"
  then show "get_fda_drug_info w d = Inr None"
    by (simp add: get_fda_drug_info_def get_fda_drug_info_try_def fetch_json_def)
next
  assume a: "http_get w (base_url @ query d) = Json data
    \<and> py_getitem_key data ''results'' = Inr (JArr [])"
  then obtain kvs where "data = JObj kvs"
    unfolding py_getitem_key_Inr by blast
  with a show "get_fda_drug_info w d = Inr None"
    by (simp add: get_fda_drug_info_def get_fda_drug_info_try_def fetch_json_def)
qed

theorem get_fda_drug_info_never_raises_witness:
  "get_fda_drug_info (w_down RequestRaises) ''Advil'' = Inr None
   \<and> get_fda_drug_info (w_down JsonRaises) ''Advil'' = Inr None
   \<and> get_fda_drug_info w_unknown ''Dolo 650'' = Inr None
   \<and> get_fda_drug_info (w_down (Json (JObj [(''results'', JArr [])]))) ''Dolo 650'' = Inr None"
  using
    get_fda_drug_info_never_raises [where w = "w_down RequestRaises" and d = "''Advil''"]
    get_fda_drug_info_never_raises [where w = "w_down JsonRaises" and d = "''Advil''"]
    get_fda_drug_info_never_raises
      [where w = w_unknown and d = "''Dolo 650''"
         and data = "JObj [(''error'', JObj [(''code'', JStr ''NOT_FOUND'')])]"]
    get_fda_drug_info_never_raises
      [where w = "w_down (Json (JObj [(''results'', JArr [])]))" and d = "''Dolo 650''"
         and data = "JObj [(''results'', JArr [])]"]
  by (simp add: w_down_def w_unknown_def)

subsection \<open>The record of a successful lookup\<close>

text \<open>
  C4: when the lookup returns a record, the payload is a dict whose result list starts
  with a dict, the first result entry, and the record has the fixed source label, a
  warnings field of length at most 1000 (the first 1000 characters of the first
  warning when that is a string), and the string \<open>Not Listed\<close> for each of purpose,
  indications and warnings that the entry does not have.
\<close>

theorem get_fda_drug_info_found_record:
  assumes "get_fda_drug_info w d = Inr (Some r)"
  shows "\<exists>kvs entry rest.
       http_get w (base_url @ query d) = Json (JObj kvs)
     \<and> map_of kvs ''results'' = Some (JArr (JObj entry # rest))
     \<and> source r = ''Official US FDA Database''
     \<and> (\<exists>n. py_len (warnings r) = Some n \<and> n \<le> 1000)
     \<and> (\<forall>s more. map_of entry ''warnings'' = Some (JArr (JStr s # more))
            \<longrightarrow> warnings r = JStr (take 1000 s))
     \<and> (map_of entry ''purpose'' = None \<longrightarrow> purpose r = JStr ''Not Listed'')
     \<and> (map_of entry ''indications_and_usage'' = None
            \<longrightarrow> indications r = JStr ''Not Listed'')
     \<and> (map_of entry ''warnings'' = None \<longrightarrow> warnings r = JStr ''Not Listed'')"
proof -
  from assms have "get_fda_drug_info_try w d = Inr (Some r)"
    by (simp add: get_fda_drug_info_Some)
  then obtain kvs v result where
    h: "http_get w (base_url @ query d) = Json (JObj kvs)" and
    m: "map_of kvs ''results'' = Some v" and
    g: "py_getitem0 v = Inr result" and
    b: "build_record result = Inr r"
    using get_fda_drug_info_try_Some by blast
  from b obtain entry p i x ws where
    f: "result = JObj entry" and
    p: "py_getitem0 (case map_of entry ''purpose'' of None \<Rightarrow> not_listed | Some y \<Rightarrow> y)
          = Inr p" and
    i: "py_getitem0 (case map_of entry ''indications_and_usage'' of
                       None \<Rightarrow> not_listed | Some y \<Rightarrow> y) = Inr i" and
    x: "py_getitem0 (case map_of entry ''warnings'' of None \<Rightarrow> not_listed | Some y \<Rightarrow> y)
          = Inr x" and
    s: "py_slice_to x 1000 = Inr ws" and
    r: "r = \<lparr>source = ''Official US FDA Database'', purpose = p, indications = i,
              warnings = ws\<rparr>"
    using build_record_Inr by blast
  from g f obtain rest where v: "v = JArr (JObj entry # rest)"
    unfolding py_getitem0_Inr by auto
  have c1: "map_of kvs ''results'' = Some (JArr (JObj entry # rest))"
    using m v by simp
  have c2: "source r = ''Official US FDA Database''"
    using r by simp
  have c3: "\<exists>n. py_len (warnings r) = Some n \<and> n \<le> 1000"
    using py_slice_to_len [OF s] r by simp
  have c4: "\<forall>s more. map_of entry ''warnings'' = Some (JArr (JStr s # more))
            \<longrightarrow> warnings r = JStr (take 1000 s)"
    using x s r by auto
  have c5: "map_of entry ''purpose'' = None \<longrightarrow> purpose r = JStr ''Not Listed''"
    using p r by (auto simp: not_listed_def)
  have c6: "map_of entry ''indications_and_usage'' = None
            \<longrightarrow> indications r = JStr ''Not Listed''"
    using i r by (auto simp: not_listed_def)
  have c7: "map_of entry ''warnings'' = None \<longrightarrow> warnings r = JStr ''Not Listed''"
    using x s r by (auto simp: not_listed_def)
  show ?thesis
    by (intro exI [of _ kvs] exI [of _ entry] exI [of _ rest] conjI h c1 c2 c3 c4 c5 c6 c7)
qed

theorem get_fda_drug_info_found_record_witness:
  "get_fda_drug_info w_advil ''Advil'' = Inr (Some advil_record)
   \<and> source advil_record = ''Official US FDA Database''
   \<and> indications advil_record = JStr ''Not Listed''
   \<and> warnings advil_record = JStr (take 1000 (replicate 1500 CHR ''w''))
   \<and> py_len (warnings advil_record) = Some 1000"
  using get_fda_drug_info_found_record [OF get_fda_drug_info_advil] get_fda_drug_info_advil
  by (simp add: advil_record_def)

subsection \<open>Empty and longer arrays in the first result entry\<close>

text \<open>
  C10: when purpose, indications or warnings is present in the first result entry as
  an empty array, the lookup returns \<open>None\<close>; and when each of the three is a
  non-empty array, the record holds the first element of each (for warnings its first
  1000 characters) whatever the other elements are.
\<close>

theorem get_fda_drug_info_first_element_only:
  "(http_get w (base_url @ query d) = Json data
      \<and> py_getitem_key data ''results'' = Inr (JArr (JObj entry # rest))
      \<and> (map_of entry ''purpose'' = Some (JArr [])
          \<or> map_of entry ''indications_and_usage'' = Some (JArr [])
          \<or> map_of entry ''warnings'' = Some (JArr []))
    \<longrightarrow> get_fda_drug_info w d = Inr None)
   \<and> (http_get w (base_url @ query d) = Json data
      \<and> py_in ''error'' data = Inr False
      \<and> py_getitem_key data ''results'' = Inr (JArr (JObj entry # rest))
      \<and> map_of entry ''purpose'' = Some (JArr (p # p_more))
      \<and> map_of entry ''indications_and_usage'' = Some (JArr (i # i_more))
      \<and> map_of entry ''warnings'' = Some (JArr (JStr s # s_more))
    \<longrightarrow> get_fda_drug_info w d =
          Inr (Some \<lparr>source = ''Official US FDA Database'', purpose = p, indications = i,
                     warnings = JStr (take 1000 s)\<rparr>))"
proof (intro conjI impI)
  assume a: "http_get w (base_url @ query d) = Json data
      \<and> py_getitem_key data ''results'' = Inr (JArr (JObj entry # rest))
      \<and> (map_of entry ''purpose'' = Some (JArr [])
          \<or> map_of entry ''indications_and_usage'' = Some (JArr [])
          \<or> map_of entry ''warnings'' = Some (JArr []))"
  have "\<exists>e. build_record (JObj entry) = Inl e"
    using a by (auto simp: build_record_def bind_exn_def split: sum.splits)
  then obtain e where e: "build_record (JObj entry) = Inl e" by blast
  from a obtain kvs where k: "data = JObj kvs"
    unfolding py_getitem_key_Inr by blast
  show "get_fda_drug_info w d = Inr None"
    using a e k
    by (simp add: get_fda_drug_info_def get_fda_drug_info_try_def fetch_json_def)
next
  assume a: "http_get w (base_url @ query d) = Json data
      \<and> py_in ''error'' data = Inr False
      \<and> py_getitem_key data ''results'' = Inr (JArr (JObj entry # rest))
      \<and> map_of entry ''purpose'' = Some (JArr (p # p_more))
      \<and> map_of entry ''indications_and_usage'' = Some (JArr (i # i_more))
      \<and> map_of entry ''warnings'' = Some (JArr (JStr s # s_more))"
  then show "get_fda_drug_info w d =
          Inr (Some \<lparr>source = ''Official US FDA Database'', purpose = p, indications = i,
                     warnings = JStr (take 1000 s)\<rparr>)"
    by (simp add: get_fda_drug_info_def get_fda_drug_info_try_def fetch_json_def
          build_record_def)
qed

theorem get_fda_drug_info_first_element_only_witness:
  "get_fda_drug_info (w_entry [(''purpose'', JArr [])]) ''Advil'' = Inr None
   \<and> get_fda_drug_info (w_entry [(''indications_and_usage'', JArr [])]) ''Advil'' = Inr None
   \<and> get_fda_drug_info (w_entry [(''warnings'', JArr [])]) ''Advil'' = Inr None
   \<and> get_fda_drug_info
        (w_entry [(''purpose'', JArr [JStr ''a'', JStr ''b'']),
                  (''indications_and_usage'', JArr [JStr ''c'', JStr ''d'']),
                  (''warnings'', JArr [JStr ''e'', JStr ''f''])]) ''Advil'' =
       Inr (Some \<lparr>source = ''Official US FDA Database'', purpose = JStr ''a'',
                  indications = JStr ''c'', warnings = JStr ''e''\<rparr>)"
  using
    get_fda_drug_info_first_element_only
      [where w = "w_entry [(''purpose'', JArr [])]" and d = "''Advil''"
         and data = "JObj [(''results'', JArr [JObj [(''purpose'', JArr [])]])]"
         and entry = "[(''purpose'', JArr [])]" and rest = "[]"]
    get_fda_drug_info_first_element_only
      [where w = "w_entry [(''indications_and_usage'', JArr [])]" and d = "''Advil''"
         and data = "JObj [(''results'', JArr [JObj [(''indications_and_usage'', JArr [])]])]"
         and entry = "[(''indications_and_usage'', JArr [])]" and rest = "[]"]
    get_fda_drug_info_first_element_only
      [where w = "w_entry [(''warnings'', JArr [])]" and d = "''Advil''"
         and data = "JObj [(''results'', JArr [JObj [(''warnings'', JArr [])]])]"
         and entry = "[(''warnings'', JArr [])]" and rest = "[]"]
    get_fda_drug_info_first_element_only
      [where w = "w_entry [(''purpose'', JArr [JStr ''a'', JStr ''b'']),
                           (''indications_and_usage'', JArr [JStr ''c'', JStr ''d'']),
                           (''warnings'', JArr [JStr ''e'', JStr ''f''])]"
         and d = "''Advil''"
         and data = "JObj [(''results'',
                      JArr [JObj [(''purpose'', JArr [JStr ''a'', JStr ''b'']),
                                  (''indications_and_usage'', JArr [JStr ''c'', JStr ''d'']),
                                  (''warnings'', JArr [JStr ''e'', JStr ''f''])]])]"
         and entry = "[(''purpose'', JArr [JStr ''a'', JStr ''b'']),
                       (''indications_and_usage'', JArr [JStr ''c'', JStr ''d'']),
                       (''warnings'', JArr [JStr ''e'', JStr ''f''])]"
         and rest = "[]" and p = "JStr ''a''" and p_more = "[JStr ''b'']"
         and i = "JStr ''c''" and i_more = "[JStr ''d'']"
         and s = "''e''" and s_more = "[JStr ''f'']"]
  by (simp add: w_entry_def)

section \<open>Properties of the completion\<close>

lemma get_ai_response_with_key:
  assumes "api_key \<noteq> []" and "chat_groq w api_key = Inr llm"
  shows "get_ai_response w api_key q c m =
     (llm (fst (logic_branching q c m)) (snd (logic_branching q c m)),
      [Call_get_ai_response q c m, NewChatGroq api_key,
       ChainInvoke (fst (logic_branching q c m)) (snd (logic_branching q c m))])"
  using assms by (simp add: get_ai_response_def split: prod.split)

lemma get_ai_response_calls:
  "filter is_ai_call (snd (get_ai_response w api_key q c m)) = [Call_get_ai_response q c m]"
  by (simp add: get_ai_response_def split: sum.split prod.split)

text \<open>
  C3: with an empty key, and so with no secret and nothing typed, the completion
  returns the instruction to enter the key as its value, raises nothing, and does
  nothing after its entry: no client is built and nothing is invoked.
\<close>

theorem get_ai_response_without_key:
  "get_ai_response w [] q c m =
     (Inr ''Please enter your API Key in the sidebar first!'', [Call_get_ai_response q c m])
   \<and> filter is_network (snd (get_ai_response w [] q c m)) = []
   \<and> (secrets ''GROQ_API_KEY'' = None \<longrightarrow>
        get_ai_response w (api_key_of secrets []) q c m =
          (Inr ''Please enter your API Key in the sidebar first!'',
           [Call_get_ai_response q c m]))"
  by (simp add: get_ai_response_def api_key_of_def enter_key_message_def)

theorem get_ai_response_without_key_witness:
  "(Map.empty :: string \<rightharpoonup> string) ''GROQ_API_KEY'' = None
   \<and> get_ai_response w_advil (api_key_of Map.empty []) ''fever'' None ''symptom'' =
       (Inr ''Please enter your API Key in the sidebar first!'',
        [Call_get_ai_response ''fever'' None ''symptom''])"
  using get_ai_response_without_key
    [where w = w_advil and secrets = Map.empty and q = "''fever''" and c = None
       and m = "''symptom''"]
  by simp

text \<open>
  C5: with the mode \<open>symptom\<close> the system text is the triage text whatever the query
  and the context are, and for every mode the system text is the same for any two
  queries and contexts.
\<close>

theorem system_text_determined_by_mode:
  "fst (logic_branching q c ''symptom'') = symptom_system_text
   \<and> fst (logic_branching q c m) = fst (logic_branching q' c' m)"
  by (simp add: logic_branching_def)

lemma repr_str_keys:
  "repr_str ''source'' = [CHR 0x27] @ ''source'' @ [CHR 0x27]"
  "repr_str ''purpose'' = [CHR 0x27] @ ''purpose'' @ [CHR 0x27]"
  "repr_str ''indications'' = [CHR 0x27] @ ''indications'' @ [CHR 0x27]"
  "repr_str ''warnings'' = [CHR 0x27] @ ''warnings'' @ [CHR 0x27]"
  by (simp_all add: repr_str_def repr_quote_def repr_char_def)

text \<open>
  C6: with the mode \<open>drug_with_context\<close> the user content is the label
  \<open>Official Data:\<close>, the printed record, the label \<open>User Question:\<close> and the query;
  the printed record is the display of a dict with the four keys and the \<open>repr\<close> of
  each value. Both the printed record and the query occur in the user content.
\<close>

theorem with_context_input_text:
  \<open>snd (logic_branching q (Some r) ''drug_with_context'') =
     ''Official Data: '' @ py_repr (record_dict r) @ ''\<newline>\<newline>User Question: '' @ q
   \<and> py_repr (record_dict r) =
       ''{'source': '' @ repr_str (source r) @ '', 'purpose': '' @ py_repr (purpose r)
       @ '', 'indications': '' @ py_repr (indications r)
       @ '', 'warnings': '' @ py_repr (warnings r) @ ''}''
   \<and> str_contains (py_repr (record_dict r))
        (snd (logic_branching q (Some r) ''drug_with_context''))
   \<and> str_contains q (snd (logic_branching q (Some r) ''drug_with_context''))\<close>
proof (intro conjI)
  show e: \<open>snd (logic_branching q (Some r) ''drug_with_context'') =
     ''Official Data: '' @ py_repr (record_dict r) @ ''\<newline>\<newline>User Question: '' @ q\<close>
    by (simp add: logic_branching_def py_str_def)
  show \<open>py_repr (record_dict r) =
       ''{'source': '' @ repr_str (source r) @ '', 'purpose': '' @ py_repr (purpose r)
       @ '', 'indications': '' @ py_repr (indications r)
       @ '', 'warnings': '' @ py_repr (warnings r) @ ''}''\<close>
    by (simp add: record_dict_def repr_str_keys)
  show "str_contains (py_repr (record_dict r))
        (snd (logic_branching q (Some r) ''drug_with_context''))"
    unfolding e str_contains_iff by blast
  have \<open>''Official Data: '' @ py_repr (record_dict r) @ ''\<newline>\<newline>User Question: '' @ q =
     (''Official Data: '' @ py_repr (record_dict r) @ ''\<newline>\<newline>User Question: '') @ q @ []\<close>
    by simp
  then show "str_contains q (snd (logic_branching q (Some r) ''drug_with_context''))"
    unfolding e str_contains_iff by blast
qed

text \<open>The user content for a small record, as Python prints it.\<close>

lemma with_context_input_text_example:
  \<open>snd (logic_branching ''Explain Advil''
          (Some \<lparr>source = ''Official US FDA Database'', purpose = JStr ''pain reliever'',
                 indications = JStr ''Not Listed'', warnings = JStr ''Don't exceed''\<rparr>)
          ''drug_with_context'') =
     ''Official Data: {'source': 'Official US FDA Database', 'purpose': 'pain reliever', 'indications': 'Not Listed', 'warnings': "Don't exceed"}\<newline>\<newline>User Question: Explain Advil''\<close>
  by (simp add: logic_branching_def py_str_def record_dict_def repr_str_def repr_quote_def
        repr_char_def)

text \<open>
  C9: a mode that is neither \<open>drug_with_context\<close> nor \<open>drug_no_context\<close> takes the
  last branch: the triage text and the query as it is. With a key and a client the
  completion is then invoked on these two and returns what the service returns.
\<close>

theorem mode_default_branch:
  assumes "mode \<noteq> ''drug_with_context''" and "mode \<noteq> ''drug_no_context''"
  shows "logic_branching q c mode = (symptom_system_text, q)
     \<and> (api_key \<noteq> [] \<and> chat_groq w api_key = Inr llm \<longrightarrow>
          get_ai_response w api_key q c mode =
            (llm symptom_system_text q,
             [Call_get_ai_response q c mode, NewChatGroq api_key,
              ChainInvoke symptom_system_text q]))"
  using assms by (simp add: logic_branching_def get_ai_response_def)

theorem mode_default_branch_witness:
  "''symtpom'' \<noteq> ''drug_with_context'' \<and> ''symtpom'' \<noteq> ''drug_no_context''
   \<and> logic_branching ''fever'' None ''symtpom'' = (symptom_system_text, ''fever'')
   \<and> get_ai_response w_advil ''gsk_key'' ''fever'' None ''symtpom'' =
       (Inr ''fever'',
        [Call_get_ai_response ''fever'' None ''symtpom'', NewChatGroq ''gsk_key'',
         ChainInvoke symptom_system_text ''fever''])"
  using mode_default_branch
    [where mode = "''symtpom''" and q = "''fever''" and c = None and api_key = "''gsk_key''"
       and w = w_advil and llm = "\<lambda>system_text input_text. Inr input_text"]
  by (simp add: w_advil_def echo_chat_def)

section \<open>Properties of the pages\<close>

lemma tab2_empty_name: "tab2 w api_key [] = (Inr (), [])"
  by (simp add: tab2_def)

lemma tab2_found:
  assumes "drug_name \<noteq> []" and "get_fda_drug_info w drug_name = Inr (Some r)"
  shows "snd (tab2 w api_key drug_name) =
     [HttpGet (base_url @ query drug_name), StSuccess]
     @ snd (get_ai_response w api_key (''Explain '' @ drug_name) (Some r) ''drug_with_context'')
     @ (case fst (get_ai_response w api_key (''Explain '' @ drug_name) (Some r)
                    ''drug_with_context'') of
          Inl e \<Rightarrow> [] | Inr explanation \<Rightarrow> [StWrite explanation, StJson r])"
  using assms by (simp add: tab2_def split: prod.split sum.split)

lemma tab2_not_found:
  assumes "drug_name \<noteq> []" and "get_fda_drug_info w drug_name = Inr None"
  shows "snd (tab2 w api_key drug_name) =
     [HttpGet (base_url @ query drug_name), StInfo]
     @ snd (get_ai_response w api_key drug_name None ''drug_no_context'')
     @ (case fst (get_ai_response w api_key drug_name None ''drug_no_context'') of
          Inl e \<Rightarrow> [] | Inr explanation \<Rightarrow> [StWrite explanation])"
  using assms by (simp add: tab2_def split: prod.split sum.split)

text \<open>
  C1: in a request for a medicine name, which the page runs for a non-empty name,
  \<open>get_ai_response\<close> is called exactly once: with the mode \<open>drug_with_context\<close> and
  the record when the lookup returned a record, with the mode \<open>drug_no_context\<close> and
  no record when the lookup returned \<open>None\<close>.
\<close>

theorem tab2_tie_break:
  assumes "drug_name \<noteq> []"
  shows "(get_fda_drug_info w drug_name = Inr (Some r) \<longrightarrow>
            filter is_ai_call (snd (tab2 w api_key drug_name)) =
              [Call_get_ai_response (''Explain '' @ drug_name) (Some r) ''drug_with_context''])
       \<and> (get_fda_drug_info w drug_name = Inr None \<longrightarrow>
            filter is_ai_call (snd (tab2 w api_key drug_name)) =
              [Call_get_ai_response drug_name None ''drug_no_context''])"
proof (intro conjI impI)
  assume "get_fda_drug_info w drug_name = Inr (Some r)"
  then show "filter is_ai_call (snd (tab2 w api_key drug_name)) =
      [Call_get_ai_response (''Explain '' @ drug_name) (Some r) ''drug_with_context'']"
    using assms by (simp add: tab2_found get_ai_response_calls split: sum.split)
next
  assume "get_fda_drug_info w drug_name = Inr None"
  then show "filter is_ai_call (snd (tab2 w api_key drug_name)) =
      [Call_get_ai_response drug_name None ''drug_no_context'']"
    using assms by (simp add: tab2_not_found get_ai_response_calls split: sum.split)
qed

theorem tab2_tie_break_witness:
  "''Advil'' \<noteq> [] \<and> get_fda_drug_info w_advil ''Advil'' = Inr (Some advil_record)
   \<and> filter is_ai_call (snd (tab2 w_advil ''gsk_key'' ''Advil'')) =
       [Call_get_ai_response ''Explain Advil'' (Some advil_record) ''drug_with_context'']
   \<and> ''Dolo 650'' \<noteq> [] \<and> get_fda_drug_info w_unknown ''Dolo 650'' = Inr None
   \<and> filter is_ai_call (snd (tab2 w_unknown ''gsk_key'' ''Dolo 650'')) =
       [Call_get_ai_response ''Dolo 650'' None ''drug_no_context'']"
  using
    tab2_tie_break [where drug_name = "''Advil''" and w = w_advil and r = advil_record
                      and api_key = "''gsk_key''"]
    tab2_tie_break [where drug_name = "''Dolo 650''" and w = w_unknown
                      and api_key = "''gsk_key''"]
    get_fda_drug_info_advil get_fda_drug_info_unknown
  by simp

text \<open>
  C7: with the mode \<open>drug_no_context\<close> the user content is \<open>Explain the medicine: \<close>
  followed by the query; and in a request for a name on which the lookup returns
  \<open>None\<close>, with a key and a client, the chain is invoked with the pharmacist text and
  that user content for the name.
\<close>

theorem no_context_input_text:
  "snd (logic_branching D c ''drug_no_context'') = ''Explain the medicine: '' @ D
   \<and> (D \<noteq> [] \<and> get_fda_drug_info w D = Inr None \<and> api_key \<noteq> []
        \<and> chat_groq w api_key = Inr llm \<longrightarrow>
      filter is_network (snd (tab2 w api_key D)) =
        [HttpGet (base_url @ query D), NewChatGroq api_key,
         ChainInvoke no_context_system_text (''Explain the medicine: '' @ D)])"
  by (simp add: logic_branching_def tab2_not_found get_ai_response_with_key split: sum.split)

theorem no_context_input_text_witness:
  "''Dolo 650'' \<noteq> [] \<and> get_fda_drug_info w_unknown ''Dolo 650'' = Inr None
   \<and> ''gsk_key'' \<noteq> []
   \<and> chat_groq w_unknown ''gsk_key'' = Inr (\<lambda>system_text input_text. Inr input_text)
   \<and> filter is_network (snd (tab2 w_unknown ''gsk_key'' ''Dolo 650'')) =
       [HttpGet (base_url @ query ''Dolo 650''), NewChatGroq ''gsk_key'',
        ChainInvoke no_context_system_text ''Explain the medicine: Dolo 650'']"
  using
    no_context_input_text
      [where D = "''Dolo 650''" and w = w_unknown and api_key = "''gsk_key''"
         and llm = "\<lambda>system_text input_text. Inr input_text"]
    get_fda_drug_info_unknown
  by (simp add: w_unknown_def echo_chat_def)

text \<open>
  C8: the emergency page reaches no network and builds no client; for a city name,
  which is a non-empty text, it shows exactly two links, the hospital search and the
  ambulance search, each a fixed prefix followed by the city name.
\<close>

theorem tab3_links:
  "filter is_network (tab3 user_city) = []
   \<and> (user_city \<noteq> [] \<longrightarrow>
        tab3 user_city =
          [StMarkdownLink user_city
             (''https://www.google.com/maps/search/hospitals+near+'' @ user_city),
           StMarkdownLink user_city
             (''https://www.google.com/maps/search/ambulance+service+near+'' @ user_city)])"
  by (simp add: tab3_def hospital_link_def ambulance_link_def)

theorem tab3_links_witness:
  "''Mumbai'' \<noteq> []
   \<and> tab3 ''Mumbai'' =
       [StMarkdownLink ''Mumbai'' ''https://www.google.com/maps/search/hospitals+near+Mumbai'',
        StMarkdownLink ''Mumbai''
          ''https://www.google.com/maps/search/ambulance+service+near+Mumbai'']"
  using tab3_links [where user_city = "''Mumbai''"]
  by simp

end
